theory Spec2Isabelle
  imports Complex_Main "HOL-Library.Word"
begin

unbundle bit_operations_syntax

section \<open>Values shared by the services and the interview screen\<close>

text \<open>
  JavaScript numbers that hold sample amplitudes, playback times and scores are modelled
  as real numbers (the samples are finite; NaN and the infinities are left out);
  \<open>Date.now()\<close> is an integer number of milliseconds. Typed arrays are lists: a
  \<open>Uint8Array\<close> or an \<open>ArrayBuffer\<close> is a list of bytes, an \<open>Int16Array\<close> a list of
  16-bit words, a \<open>Float32Array\<close> a list of reals. Every exception of the source is a
  value of \<open>error\<close>.
\<close>

type_synonym byte = "8 word"
type_synonym int16 = "16 word"

datatype error =
    RangeError
  | NotSupportedError
  | TypeError
  | SyntaxError
  | ApiError string

section \<open>PCM conversion (services/geminiService.ts, components/InterviewScreen.tsx)\<close>

subsection \<open>Storing a number into a 16-bit slot\<close>

text \<open>
  Both \<open>DataView.setInt16\<close> and an assignment to an \<open>Int16Array\<close> element convert the
  number with the language's ToInt16: the fraction is cut off towards zero and the
  integer is taken modulo \<open>2 ^ 16\<close>, read as two's complement. On 32-bit float
  samples the products by 32767 and 32768 and the quotient of a 16-bit integer by 32768
  are exact in double precision, so the real arithmetic below computes what the code
  computes.
\<close>

definition trunc :: "real \<Rightarrow> int" where
  "trunc x = (if x < 0 then - \<lfloor>- x\<rfloor> else \<lfloor>x\<rfloor>)"

definition ToInt16 :: "real \<Rightarrow> int16" where
  "ToInt16 x = word_of_int (trunc x)"

text \<open>Little-endian layout of one 16-bit word: low byte first.\<close>

definition int16_bytes :: "int16 \<Rightarrow> byte list" where
  "int16_bytes w = [ucast w, ucast (drop_bit 8 w)]"

definition int16_of_bytes :: "byte \<Rightarrow> byte \<Rightarrow> int16" where
  "int16_of_bytes lo hi = push_bit 8 (ucast hi) OR ucast lo"

subsection \<open>floatTo16BitPCM\<close>

text \<open>
  \<^verbatim>\<open>let s = Math.max(-1, Math.min(1, float32Array[i]));
view.setInt16(i * 2, s < 0 ? s * 0x8000 : s * 0x7FFF, true);\<close>
\<close>

definition floatTo16BitPCM_sample :: "real \<Rightarrow> int16" where
  "floatTo16BitPCM_sample x =
     (let s = max (- 1) (min 1 x)
      in ToInt16 (if s < 0 then s * 32768 else s * 32767))"

definition floatTo16BitPCM :: "real list \<Rightarrow> byte list" where
  "floatTo16BitPCM float32Array =
     concat (map (\<lambda>x. int16_bytes (floatTo16BitPCM_sample x)) float32Array)"

subsection \<open>sendAudioChunk\<close>

text \<open>
  \<^verbatim>\<open>const s = sessionInstance || this.session;
if (!s) return;
const int16 = new Int16Array(l);
for (let i = 0; i < l; i++) { int16[i] = float32Data[i] * 32768; }
const base64 = btoa(String.fromCharCode(...new Uint8Array(int16.buffer)));
s.sendRealtimeInput({ media: { mimeType: 'audio/pcm;rate=16000', data: base64 } });\<close>
  The result is the event handed to the session, if there is a session. The field
  \<open>data\<close> holds the bytes of \<open>int16.buffer\<close>; their base64 text is not modelled. The
  byte order of a typed array is the platform's, taken as little-endian.
\<close>

record media =
  mimeType :: string
  data :: "byte list"

definition sendAudioChunk_int16 :: "real list \<Rightarrow> int16 list" where
  "sendAudioChunk_int16 float32Data = map (\<lambda>x. ToInt16 (x * 32768)) float32Data"

definition sendAudioChunk :: "real list \<Rightarrow> 's option \<Rightarrow> 's option \<Rightarrow> ('s \<times> media) option" where
  "sendAudioChunk float32Data sessionInstance this_session =
     (case (case sessionInstance of Some s \<Rightarrow> Some s | None \<Rightarrow> this_session) of
        None \<Rightarrow> None
      | Some s \<Rightarrow>
          Some (s, \<lparr> mimeType = ''audio/pcm;rate=16000'',
                     data = concat (map int16_bytes (sendAudioChunk_int16 float32Data)) \<rparr>))"

subsection \<open>decodePCMData\<close>

text \<open>
  \<open>new Int16Array(buffer)\<close> views the bytes as 16-bit words and throws a RangeError
  when the byte length is odd.
\<close>

fun pcmData :: "byte list \<Rightarrow> error + int16 list" where
  "pcmData [] = Inr []"
| "pcmData [b] = Inl RangeError"
| "pcmData (lo # hi # rest) =
     (case pcmData rest of
        Inl e \<Rightarrow> Inl e
      | Inr ws \<Rightarrow> Inr (int16_of_bytes lo hi # ws))"

text \<open>\<^verbatim>\<open>float32Data[i] = pcmData[i] / 32768.0;\<close>\<close>

definition float32Data :: "int16 list \<Rightarrow> real list" where
  "float32Data ws = map (\<lambda>w. real_of_int (sint w) / 32768) ws"

text \<open>
  An \<open>AudioBuffer\<close> with one channel. \<open>createBuffer\<close> belongs to the Web Audio
  platform: it throws a NotSupportedError when the channel count, the length or the
  sample rate is zero, and returns a silent buffer otherwise.
\<close>

record audioBuffer =
  numberOfChannels :: nat
  sampleRate :: nat
  channelData :: "real list"

definition duration :: "audioBuffer \<Rightarrow> real" where
  "duration b = real (length (channelData b)) / real (sampleRate b)"

definition createBuffer :: "nat \<Rightarrow> nat \<Rightarrow> nat \<Rightarrow> error + audioBuffer" where
  "createBuffer channels len hz =
     (if channels = 0 \<or> len = 0 \<or> hz = 0 then Inl NotSupportedError
      else Inr \<lparr> numberOfChannels = channels, sampleRate = hz,
                 channelData = replicate len 0 \<rparr>)"

definition decodePCMData :: "byte list \<Rightarrow> error + audioBuffer" where
  "decodePCMData buffer =
     (case pcmData buffer of
        Inl e \<Rightarrow> Inl e
      | Inr ws \<Rightarrow>
          (let f = float32Data ws
           in case createBuffer 1 (length f) 24000 of
                Inl e \<Rightarrow> Inl e
              | Inr audioBuffer \<Rightarrow> Inr (audioBuffer\<lparr> channelData := f \<rparr>)))"

section \<open>The interview screen (components/InterviewScreen.tsx)\<close>

subsection \<open>State\<close>

text \<open>
  A handler of the component is a closure. The names \<open>nudges\<close> and \<open>aiSpeaking\<close> in
  its body are the constants that \<open>useState\<close> bound in the render which created the
  closure; \<open>setNudges\<close> and \<open>setAiSpeaking\<close> store a value for the next render and
  leave those constants as they are. The model keeps the two apart: \<open>scope\<close> holds the
  constants a handler reads, \<open>screen\<close> holds what React and the refs store.
\<close>

datatype category = Posture | EyeContact | Audio | General

record nudge =
  nudge_id :: string
  nudge_type :: category
  nudge_message :: string
  nudge_timestamp :: int

record speechRateData =
  peaks :: nat
  startTime :: int
  lastPeakTime :: int

record scope =
  nudges :: "nudge list"
  aiSpeaking :: bool
  hasStarted :: bool

record screen =
  nudges_state :: "nudge list"
  aiSpeaking_state :: bool
  hasStarted_state :: bool
  micActive_state :: bool
  showEyeWarning_state :: bool
  lastAnalysisTimeRef :: real
  animationFrames :: nat
  videoFramesSent :: nat
  lastNudgeTimeRef :: "category \<Rightarrow> int option"
  speechRateDataRef :: speechRateData
  outputReady :: bool
  nextStartTimeRef :: real
  started :: "(real \<times> audioBuffer) list"
  console :: "string list"

text \<open>
  \<open>outputReady\<close> says that \<open>outputAudioContextRef.current\<close> and
  \<open>outputNodeRef.current\<close> are both set; \<open>started\<close> lists the calls
  \<open>source.start(when)\<close> in order, each with its buffer; \<open>console\<close> lists what
  \<open>console.error\<close> printed; \<open>animationFrames\<close> counts the calls of
  \<open>requestAnimationFrame\<close> and \<open>videoFramesSent\<close> the calls of \<open>sendVideoFrame\<close>.
  A render reads the stored state:
\<close>

definition render :: "screen \<Rightarrow> scope" where
  "render st = \<lparr> nudges = nudges_state st, aiSpeaking = aiSpeaking_state st,
                 hasStarted = hasStarted_state st \<rparr>"

text \<open>The values that \<open>useState\<close> and \<open>useRef\<close> are given when the component mounts.\<close>

definition initialScreen :: screen where
  "initialScreen =
     \<lparr> nudges_state = [], aiSpeaking_state = False, hasStarted_state = False,
       micActive_state = False, showEyeWarning_state = False, lastAnalysisTimeRef = 0,
       animationFrames = 0, videoFramesSent = 0, lastNudgeTimeRef = Map.empty,
       speechRateDataRef = \<lparr> peaks = 0, startTime = 0, lastPeakTime = 0 \<rparr>,
       outputReady = False, nextStartTimeRef = 0, started = [], console = [] \<rparr>"

subsection \<open>addNudge\<close>

text \<open>
  The module \<open>constants\<close> (its text follows the setup screen in the sources):
  \<^verbatim>\<open>// Cooldowns for nudges (in milliseconds)
export const NUDGE_COOLDOWN = 30000;
export const NUDGE_DISPLAY_TIME = 5000;\<close>
\<close>

definition NUDGE_COOLDOWN :: int where
  "NUDGE_COOLDOWN = 30000"


text \<open>
  \<^verbatim>\<open>const now = Date.now();
const lastTime = lastNudgeTimeRef.current[type] || 0;
if (nudges.length > 0) return;
if (now - lastTime < NUDGE_COOLDOWN) return;
const newNudge = { id: Math.random().toString(), type, message, timestamp: now };
setNudges([newNudge]);
lastNudgeTimeRef.current[type] = now;
setTimeout(() => { setNudges(prev => prev.filter(n => n.id !== newNudge.id)); },
           NUDGE_DISPLAY_TIME);\<close>
  The readings of \<open>Date.now()\<close> and \<open>Math.random().toString()\<close> are arguments. The
  timer is the separate step \<open>nudgeTimeout\<close>, which runs \<open>NUDGE_DISPLAY_TIME\<close> later.
\<close>

definition lastTime :: "screen \<Rightarrow> category \<Rightarrow> int" where
  "lastTime st type = (case lastNudgeTimeRef st type of None \<Rightarrow> 0 | Some t \<Rightarrow> t)"

definition addNudge :: "scope \<Rightarrow> int \<Rightarrow> string \<Rightarrow> category \<Rightarrow> string \<Rightarrow> screen \<Rightarrow> screen" where
  "addNudge c now rid type msg st =
     (if length (nudges c) > 0 then st
      else if now - lastTime st type < NUDGE_COOLDOWN then st
      else st\<lparr> nudges_state :=
                   [\<lparr> nudge_id = rid, nudge_type = type, nudge_message = msg, nudge_timestamp = now \<rparr>],
                 lastNudgeTimeRef := (lastNudgeTimeRef st)(type \<mapsto> now) \<rparr>)"

definition nudgeTimeout :: "string \<Rightarrow> screen \<Rightarrow> screen" where
  "nudgeTimeout rid st = st\<lparr> nudges_state := filter (\<lambda>n. nudge_id n \<noteq> rid) (nudges_state st) \<rparr>"

text \<open>The result of the visual analyzer, which the polling loop below passes on.\<close>

record analysis =
  eyeContactIssue :: bool
  postureIssue :: bool
  postureMessage :: string

subsection \<open>analyzeSpeechRate\<close>

text \<open>
  The loop over the buffer compares each sample with the one before it:
  \<^verbatim>\<open>for (let i = 1; i < inputData.length; i++) {
  if (inputData[i] > threshold && inputData[i-1] <= threshold) {
    if (now - data.lastPeakTime > minPeakDist) { data.peaks++; data.lastPeakTime = now; }
  }
}\<close>
\<close>

definition threshold :: real where
  "threshold = 0.15"

definition minPeakDist :: int where
  "minPeakDist = 150"

fun peakLoop :: "int \<Rightarrow> real \<Rightarrow> real list \<Rightarrow> speechRateData \<Rightarrow> speechRateData" where
  "peakLoop now prev [] d = d"
| "peakLoop now prev (x # xs) d =
     peakLoop now x xs
       (if x > threshold \<and> prev \<le> threshold
        then (if now - lastPeakTime d > minPeakDist
              then d\<lparr> peaks := peaks d + 1, lastPeakTime := now \<rparr>
              else d)
        else d)"

definition countPeaks :: "int \<Rightarrow> real list \<Rightarrow> speechRateData \<Rightarrow> speechRateData" where
  "countPeaks now inputData d =
     (case inputData of [] \<Rightarrow> d | x0 # rest \<Rightarrow> peakLoop now x0 rest d)"

text \<open>
  \<^verbatim>\<open>if (now - data.startTime > 3000) {
  const durationSec = (now - data.startTime) / 1000;
  const rate = data.peaks / durationSec;
  if (data.peaks > 2 && !aiSpeaking) {
    if (rate > 4.5) { addNudge('audio', 'Speaking too fast. Breathe.'); }
    else if (rate < 1.5) { addNudge('audio', 'Sounding uncertain. Project confidence.'); }
  }
  data.peaks = 0;
  data.startTime = now;
}\<close>
  The function returns the messages it passed to \<open>addNudge('audio', _)\<close>, in order,
  beside the new state.
\<close>

definition tooFast :: string where
  "tooFast = ''Speaking too fast. Breathe.''"

definition uncertain :: string where
  "uncertain = ''Sounding uncertain. Project confidence.''"

definition rate :: "speechRateData \<Rightarrow> int \<Rightarrow> real" where
  "rate d now = real (peaks d) / (real_of_int (now - startTime d) / 1000)"

definition analyzeSpeechRate ::
  "scope \<Rightarrow> int \<Rightarrow> string \<Rightarrow> real list \<Rightarrow> screen \<Rightarrow> string list \<times> screen" where
  "analyzeSpeechRate c now rid inputData st =
     (let d = speechRateDataRef st;
          (emitted, st1) =
            (if now - startTime d > 3000
             then
               (let (calls, st') =
                      (if peaks d > 2 \<and> \<not> aiSpeaking c
                       then (if rate d now > 4.5
                             then ([tooFast], addNudge c now rid Audio tooFast st)
                             else if rate d now < 1.5
                             then ([uncertain], addNudge c now rid Audio uncertain st)
                             else ([], st))
                       else ([], st))
                in (calls, st'\<lparr> speechRateDataRef := d\<lparr> peaks := 0, startTime := now \<rparr> \<rparr>))
             else ([], st))
      in (emitted,
          st1\<lparr> speechRateDataRef := countPeaks now inputData (speechRateDataRef st1) \<rparr>))"

text \<open>A stream of buffers, each with the clock reading and the id of its call.\<close>

fun analyzeStream ::
  "scope \<Rightarrow> (int \<times> string \<times> real list) list \<Rightarrow> screen \<Rightarrow> string list \<times> screen" where
  "analyzeStream c [] st = ([], st)"
| "analyzeStream c ((now, rid, inputData) # rest) st =
     (let (e1, st1) = analyzeSpeechRate c now rid inputData st;
          (e2, st2) = analyzeStream c rest st1
      in (e1 @ e2, st2))"

subsection \<open>The capture callback\<close>



subsection \<open>The playback handler passed to connect\<close>

text \<open>
  \<^verbatim>\<open>if (!outputAudioContextRef.current || !outputNodeRef.current) return;
setAiSpeaking(true);
nextStartTimeRef.current = Math.max(nextStartTimeRef.current,
                                    outputAudioContextRef.current.currentTime);
try {
  const buffer = decodePCMData(audioBufferRaw, outputAudioContextRef.current);
  ...
  source.start(nextStartTimeRef.current);
  nextStartTimeRef.current += buffer.duration;
} catch (e) { console.error("Audio decode error", e); }\<close>
  The reading of \<open>currentTime\<close> is an argument. The platform's clock is never negative,
  so \<open>start\<close> accepts the time it is given. Before these lines the handler may await
  \<open>resume()\<close>, which touches none of the refs; the timer that clears the speaking
  indicator 200 ms later is the separate step \<open>aiSpeakingTimeout\<close>.
\<close>

definition onAudioData :: "real \<Rightarrow> byte list \<Rightarrow> screen \<Rightarrow> screen" where
  "onAudioData currentTime audioBufferRaw st =
     (if \<not> outputReady st then st
      else
        (let st1 = st\<lparr> aiSpeaking_state := True \<rparr>;
             st2 = st1\<lparr> nextStartTimeRef := max (nextStartTimeRef st1) currentTime \<rparr>
         in case decodePCMData audioBufferRaw of
              Inl e \<Rightarrow> st2\<lparr> console := console st2 @ [''Audio decode error''] \<rparr>
            | Inr buffer \<Rightarrow>
                st2\<lparr> started := started st2 @ [(nextStartTimeRef st2, buffer)],
                     nextStartTimeRef := nextStartTimeRef st2 + duration buffer \<rparr>))"


text \<open>The handler run on a sequence of payloads, each with the clock reading of its call.\<close>

fun onAudioDataAll :: "(real \<times> byte list) list \<Rightarrow> screen \<Rightarrow> screen" where
  "onAudioDataAll [] st = st"
| "onAudioDataAll ((currentTime, raw) # rest) st =
     onAudioDataAll rest (onAudioData currentTime raw st)"

text \<open>
  A scheduled segment occupies the time from its start to \<open>segmentEnd\<close>. The schedule
  is in order when every segment ends before each later one starts and before the cursor.
\<close>

definition segmentEnd :: "real \<times> audioBuffer \<Rightarrow> real" where
  "segmentEnd seg = fst seg + duration (snd seg)"

definition scheduleInv :: "screen \<Rightarrow> bool" where
  "scheduleInv st \<longleftrightarrow>
     sorted_wrt (\<lambda>a b. segmentEnd a \<le> fst b) (started st)
     \<and> list_all (\<lambda>a. segmentEnd a \<le> nextStartTimeRef st) (started st)"

section \<open>The visual analyzer (services/visionService.ts)\<close>

text \<open>
  The two landmark detectors are external: each is a function of the video frame and the
  timestamp that returns a result or throws. \<open>detections\<close> lists the timestamps of
  the calls \<open>detectForVideo\<close> made so far.
\<close>

record blendshape =
  categoryName :: string
  score :: real

record landmark =
  landmark_x :: real
  landmark_y :: real

record faceResult =
  faceBlendshapes :: "blendshape list list option"

record poseResult =
  landmarks :: "landmark list list option"

record 'v visionService =
  faceLandmarker :: "('v \<Rightarrow> real \<Rightarrow> error + faceResult) option"
  poseLandmarker :: "('v \<Rightarrow> real \<Rightarrow> error + poseResult) option"
  isInitialized :: bool
  lastTimestamp :: real
  totalFrames :: nat
  eyeContactFrames :: nat
  goodPostureFrames :: nat
  detections :: "real list"

definition reset :: "'v visionService \<Rightarrow> 'v visionService" where
  "reset vs = vs\<lparr> totalFrames := 0, eyeContactFrames := 0, goodPostureFrames := 0,
                  lastTimestamp := - 1 \<rparr>"

text \<open>\<^verbatim>\<open>const findScore = (name) => bs.find(b => b.categoryName === name)?.score || 0;\<close>\<close>

definition findScore :: "blendshape list \<Rightarrow> string \<Rightarrow> real" where
  "findScore bs name =
     (case find (\<lambda>b. categoryName b = name) bs of None \<Rightarrow> 0 | Some b \<Rightarrow> score b)"

definition eyeContactCheck :: "faceResult \<Rightarrow> bool" where
  "eyeContactCheck faceResult =
     (case faceBlendshapes faceResult of
        Some (bs # rest) \<Rightarrow>
          (let lookLeft = findScore bs ''eyeLookInLeft'' + findScore bs ''eyeLookOutRight'';
               lookRight = findScore bs ''eyeLookOutLeft'' + findScore bs ''eyeLookInRight'';
               lookDown = findScore bs ''eyeLookDownLeft'' + findScore bs ''eyeLookDownRight'';
               lookUp = findScore bs ''eyeLookUpLeft'' + findScore bs ''eyeLookUpRight''
           in lookLeft > 0.8 \<or> lookRight > 0.8 \<or> lookDown > 0.6 \<or> lookUp > 0.6)
      | _ \<Rightarrow> False)"

text \<open>
  \<open>landmarks[11]\<close> and \<open>landmarks[12]\<close> are the shoulders; reading \<open>.y\<close> of a missing
  entry throws a TypeError.
\<close>

definition at_index :: "'a list \<Rightarrow> nat \<Rightarrow> 'a option" where
  "at_index xs i = (if i < length xs then Some (xs ! i) else None)"

definition postureCheck :: "poseResult \<Rightarrow> error + (bool \<times> string)" where
  "postureCheck poseResult =
     (case landmarks poseResult of
        Some (lm # rest) \<Rightarrow>
          (case (at_index lm 11, at_index lm 12) of
             (Some leftShoulder, Some rightShoulder) \<Rightarrow>
               (let yDiff = \<bar>landmark_y leftShoulder - landmark_y rightShoulder\<bar>
                in if yDiff > 0.15 then Inr (True, ''You're tilting your shoulders.'')
                   else Inr (False, []))
           | _ \<Rightarrow> Inl TypeError)
      | _ \<Rightarrow> Inr (False, []))"

text \<open>
  \<^verbatim>\<open>if (!this.isInitialized || !this.faceLandmarker || !this.poseLandmarker) return null;
if (timestamp <= this.lastTimestamp || timestamp <= 0) { return null; }
this.lastTimestamp = timestamp;
try {
  const faceResult = this.faceLandmarker.detectForVideo(video, timestamp);
  const poseResult = this.poseLandmarker.detectForVideo(video, timestamp);
  ...
  this.totalFrames++;
  if (!eyeContactIssue) this.eyeContactFrames++;
  if (!postureIssue) this.goodPostureFrames++;
  return { eyeContactIssue, postureIssue, postureMessage };
} catch (e) { return null; }\<close>
\<close>

definition analyze :: "'v \<Rightarrow> real \<Rightarrow> 'v visionService \<Rightarrow> analysis option \<times> 'v visionService" where
  "analyze video timestamp vs =
     (case (isInitialized vs, faceLandmarker vs, poseLandmarker vs) of
        (True, Some face, Some pose) \<Rightarrow>
          if timestamp \<le> lastTimestamp vs \<or> timestamp \<le> 0 then (None, vs)
          else
            (let vs1 = vs\<lparr> lastTimestamp := timestamp \<rparr>;
                 vs2 = vs1\<lparr> detections := detections vs1 @ [timestamp] \<rparr>
             in case face video timestamp of
                  Inl e \<Rightarrow> (None, vs2)
                | Inr faceResult \<Rightarrow>
                    (let vs3 = vs2\<lparr> detections := detections vs2 @ [timestamp] \<rparr>
                     in case pose video timestamp of
                          Inl e \<Rightarrow> (None, vs3)
                        | Inr poseResult \<Rightarrow>
                            (let eyeIssue = eyeContactCheck faceResult
                             in case postureCheck poseResult of
                                  Inl e \<Rightarrow> (None, vs3)
                                | Inr (postIssue, postMessage) \<Rightarrow>
                                    (Some \<lparr> eyeContactIssue = eyeIssue,
                                            postureIssue = postIssue,
                                            postureMessage = postMessage \<rparr>,
                                     vs3\<lparr> totalFrames := totalFrames vs3 + 1,
                                          eyeContactFrames :=
                                            (if \<not> eyeIssue then eyeContactFrames vs3 + 1
                                             else eyeContactFrames vs3),
                                          goodPostureFrames :=
                                            (if \<not> postIssue then goodPostureFrames vs3 + 1
                                             else goodPostureFrames vs3) \<rparr>))))
      | _ \<Rightarrow> (None, vs))"

section \<open>The polling loop and the handlers of a session\<close>

subsection \<open>loop\<close>


subsection \<open>The handlers that startSession installs\<close>

text \<open>
  \<open>startSession\<close> is the click handler of the Start button, which is drawn only while
  \<open>hasStarted\<close> is false; \<open>setNudges\<close> and \<open>setAiSpeaking\<close> are called only by the
  handlers that \<open>startSession\<close> installs. So \<open>startSession\<close> belongs to a render of
  the initial state, and \<open>onaudioprocess\<close>, \<open>loop\<close> and the playback handler, which
  it creates once, read the constants of that render for the whole session.
\<close>

definition liveScope :: scope where
  "liveScope = \<lparr> nudges = [], aiSpeaking = False, hasStarted = False \<rparr>"




text \<open>
  During a session every stored advisory is an audio advisory whose time stamp is the
  time at which its category last fired, and there is at most one.
\<close>

definition nudgeInv :: "screen \<Rightarrow> bool" where
  "nudgeInv st \<longleftrightarrow>
     length (nudges_state st) \<le> 1
     \<and> list_all (\<lambda>n. nudge_type n = Audio
                      \<and> lastNudgeTimeRef st Audio = Some (nudge_timestamp n))
          (nudges_state st)"

section \<open>The report (services/geminiService.ts, the report screen)\<close>

text \<open>
  \<open>JSON.parse(jsonText) as ReportData\<close> checks nothing, so the report held by the
  screen is whatever JSON value the text denotes.
\<close>

datatype json =
    JNull
  | JBool bool
  | JNumber real
  | JString string
  | JArray "json list"
  | JObject "(string \<times> json) list"

text \<open>The shape that \<open>ReportData\<close> in types.ts declares.\<close>

definition isNumber :: "json option \<Rightarrow> bool" where
  "isNumber j = (case j of Some (JNumber n) \<Rightarrow> True | _ \<Rightarrow> False)"

definition isString :: "json \<Rightarrow> bool" where
  "isString j = (case j of JString s \<Rightarrow> True | _ \<Rightarrow> False)"

definition isStringArray :: "json option \<Rightarrow> bool" where
  "isStringArray j = (case j of Some (JArray js) \<Rightarrow> list_all isString js | _ \<Rightarrow> False)"

definition dimensionNames :: "string list" where
  "dimensionNames =
     [''firstImpression'', ''communicationClarity'', ''technicalKnowledge'',
      ''behavioralExamples'', ''eyeContact'', ''posturePresence'', ''voiceTone'',
      ''fillerWords'', ''questionHandling'', ''enthusiasm'', ''closingStrength'']"

definition isReportData :: "json \<Rightarrow> bool" where
  "isReportData j =
     (case j of
        JObject members \<Rightarrow>
          isNumber (map_of members ''overallScore'')
          \<and> (case map_of members ''dimensions'' of
                Some (JObject ds) \<Rightarrow> list_all (\<lambda>n. isNumber (map_of ds n)) dimensionNames
              | _ \<Rightarrow> False)
          \<and> (case map_of members ''feedback'' of
                Some (JObject fs) \<Rightarrow>
                  isStringArray (map_of fs ''wentWell'')
                  \<and> isStringArray (map_of fs ''needsWork'')
                  \<and> isStringArray (map_of fs ''improvementPlan'')
              | _ \<Rightarrow> False)
          \<and> (case map_of members ''transcriptSummary'' of
                Some (JString s) \<Rightarrow> True
              | _ \<Rightarrow> False)
      | _ \<Rightarrow> False)"

subsection \<open>generateReport\<close>

text \<open>
  \<^verbatim>\<open>try {
  ... const response = await this.ai.models.generateContent({ ... });
  const jsonText = response.text || "{}";
  return JSON.parse(jsonText) as ReportData;
} catch (e) { console.error("Error generating report:", e); throw e; }\<close>
  The outcome of building the prompt and awaiting the remote call is the argument
  \<open>response\<close>: an exception, or the text of the response, which may be absent.
  \<open>JSON.parse\<close> belongs to the platform and is the argument \<open>parse\<close>; \<open>None\<close> is its
  SyntaxError.
\<close>

definition jsonText :: "string option \<Rightarrow> string" where
  "jsonText text = (case text of None \<Rightarrow> ''{}'' | Some t \<Rightarrow> if t = [] then ''{}'' else t)"

definition generateReport ::
  "(string \<Rightarrow> json option) \<Rightarrow> error + string option \<Rightarrow> error + json" where
  "generateReport parse response =
     (case response of
        Inl e \<Rightarrow> Inl e
      | Inr text \<Rightarrow>
          (case parse (jsonText text) of
             None \<Rightarrow> Inl SyntaxError
           | Some j \<Rightarrow> Inr j))"

subsection \<open>The generate effect of the report screen\<close>

text \<open>
  \<^verbatim>\<open>try { const data = await geminiService.generateReport(transcript, config);
      setReport(data); }
catch (e) { setReport({ overallScore: 75, dimensions: { ... }, feedback: { ... },
                        transcriptSummary: "..." }); }
finally { setLoadingStepIndex(LOADING_STEPS.length - 1);
          setTimeout(() => setLoading(false), 800); }\<close>
  The state below is the one after the timer of the \<open>finally\<close> block has run.
\<close>

record reportScreen =
  report :: "json option"
  loading :: bool

definition fallbackReport :: json where
  "fallbackReport =
     JObject
       [(''overallScore'', JNumber 75),
        (''dimensions'',
           JObject
             [(''firstImpression'', JNumber 8), (''communicationClarity'', JNumber 7),
              (''technicalKnowledge'', JNumber 8), (''behavioralExamples'', JNumber 6),
              (''eyeContact'', JNumber 9), (''posturePresence'', JNumber 8),
              (''voiceTone'', JNumber 7), (''fillerWords'', JNumber 12),
              (''questionHandling'', JNumber 7), (''enthusiasm'', JNumber 8),
              (''closingStrength'', JNumber 6)]),
        (''feedback'',
           JObject
             [(''wentWell'',
                 JArray [JString ''Great eye contact throughout.'',
                         JString ''Solid technical understanding of the role.'']),
              (''needsWork'',
                 JArray [JString ''Structured answers better (use STAR).'',
                         JString ''Closing was a bit abrupt.'']),
              (''improvementPlan'',
                 JArray [JString ''Practice the STAR method for behavioral questions.'',
                         JString ''Prepare 2-3 questions for the interviewer.''])]),
        (''transcriptSummary'',
           JString ''The interview covered the candidate's background and technical skills. Some hesitation on behavioral questions.'')]"

definition generate ::
  "(string \<Rightarrow> json option) \<Rightarrow> error + string option \<Rightarrow> reportScreen \<Rightarrow> reportScreen" where
  "generate parse response rs =
     (let rs1 = (case generateReport parse response of
                   Inr d \<Rightarrow> rs\<lparr> report := Some d \<rparr>
                 | Inl e \<Rightarrow> rs\<lparr> report := Some fallbackReport \<rparr>)
      in rs1\<lparr> loading := False \<rparr>)"

text \<open>
  Once \<open>loading\<close> is false and the report is set, the component builds its chart
  data before anything is drawn:
  \<^verbatim>\<open>const radarData = [
  { subject: 'Clarity', A: report.dimensions.communicationClarity, fullMark: 10 }, ... ];\<close>
  Reading a property of a missing or null \<open>dimensions\<close> throws a TypeError; a property
  that an object does not have is undefined (\<open>None\<close>).
\<close>

definition member :: "json \<Rightarrow> string \<Rightarrow> json option" where
  "member j name = (case j of JObject members \<Rightarrow> map_of members name | _ \<Rightarrow> None)"

definition radarData :: "json \<Rightarrow> error + (string \<times> json option) list" where
  "radarData r =
     (case member r ''dimensions'' of
        None \<Rightarrow> Inl TypeError
      | Some JNull \<Rightarrow> Inl TypeError
      | Some d \<Rightarrow>
          Inr [(''Clarity'', member d ''communicationClarity''),
               (''Tech'', member d ''technicalKnowledge''),
               (''Behavior'', member d ''behavioralExamples''),
               (''Confidence'', member d ''voiceTone''),
               (''Handling'', member d ''questionHandling''),
               (''Enthusiasm'', member d ''enthusiasm'')])"

text \<open>
  \<open>JSON.parse\<close> on the two texts that are evaluated below: the empty text is a syntax
  error and \<open>{}\<close> is the object without fields. It stands for the platform's parser
  at these two texts only.
\<close>

definition parseEmptyObject :: "string \<Rightarrow> json option" where
  "parseEmptyObject t = (if t = ''{}'' then Some (JObject []) else None)"

section \<open>Sample inputs\<close>

text \<open>
  The screen once \<open>startSession\<close> has set up the output context, and the screen once
  it has called \<open>setHasStarted(true)\<close> and stamped the speech-rate window.
\<close>

definition readyScreen :: screen where
  "readyScreen = initialScreen\<lparr> outputReady := True \<rparr>"

definition sessionStart :: "int \<Rightarrow> screen" where
  "sessionStart now =
     initialScreen\<lparr> hasStarted_state := True,
                    speechRateDataRef := (speechRateDataRef initialScreen)\<lparr> startTime := now \<rparr> \<rparr>"

text \<open>\<open>n\<close> buffers, \<open>step\<close> ms apart from \<open>t0\<close> on, each with one rising edge.\<close>

definition pulses :: "int \<Rightarrow> int \<Rightarrow> nat \<Rightarrow> (int \<times> string \<times> real list) list" where
  "pulses t0 step n = map (\<lambda>k. (t0 + step * int k, ''n'', [0, 1])) [0..<n]"

text \<open>
  An initialized analyzer whose face detector reports a downward gaze and whose pose
  detector finds nobody.
\<close>

definition stillFace :: "unit \<Rightarrow> real \<Rightarrow> error + faceResult" where
  "stillFace video timestamp =
     Inr \<lparr> faceBlendshapes =
             Some [[\<lparr> categoryName = ''eyeLookDownLeft'', score = 0.5 \<rparr>,
                    \<lparr> categoryName = ''eyeLookDownRight'', score = 0.25 \<rparr>]] \<rparr>"

definition noPose :: "unit \<Rightarrow> real \<Rightarrow> error + poseResult" where
  "noPose video timestamp = Inr \<lparr> landmarks = Some [] \<rparr>"

definition readyVision :: "unit visionService" where
  "readyVision =
     \<lparr> faceLandmarker = Some stillFace, poseLandmarker = Some noPose, isInitialized = True,
       lastTimestamp = - 1, totalFrames = 0, eyeContactFrames = 0, goodPostureFrames = 0,
       detections = [] \<rparr>"


section \<open>Properties of the PCM conversion\<close>

subsection \<open>Bytes and words\<close>

lemma int16_of_bytes_int16_bytes:
  "int16_of_bytes (ucast w) (ucast (drop_bit 8 w)) = (w::int16)"
  unfolding int16_of_bytes_def
  by (rule bit_word_eqI) (auto simp add: bit_simps)

lemma pcmData_concat_int16_bytes:
  "pcmData (concat (map int16_bytes ws)) = Inr ws"
  by (induction ws) (simp_all add: int16_bytes_def int16_of_bytes_int16_bytes)

lemma pcmData_floatTo16BitPCM:
  "pcmData (floatTo16BitPCM xs) = Inr (map floatTo16BitPCM_sample xs)"
  using pcmData_concat_int16_bytes [of "map floatTo16BitPCM_sample xs"]
  by (simp add: floatTo16BitPCM_def comp_def)

subsection \<open>One sample through floatTo16BitPCM and back\<close>

text \<open>
  A clamped sample times 32767 or 32768 stays within the 16-bit range, so ToInt16 only
  cuts off the fraction. A non-negative sample is scaled by 32767 and divided by 32768 on
  the way back, which adds up to \<open>x / 32768\<close> to the error of cutting off.
\<close>

lemma sint_word_of_int_16:
  "- 32768 \<le> e \<Longrightarrow> e < 32768 \<Longrightarrow> sint (word_of_int e :: int16) = e"
  by (simp add: signed_of_int signed_take_bit_int_eq_self)

lemma sample_nonneg:
  assumes "0 \<le> x" "x \<le> 1"
  shows "floatTo16BitPCM_sample x = word_of_int \<lfloor>x * 32767\<rfloor>"
    and "0 \<le> \<lfloor>x * 32767\<rfloor>" and "\<lfloor>x * 32767\<rfloor> \<le> 32767"
proof -
  show "floatTo16BitPCM_sample x = word_of_int \<lfloor>x * 32767\<rfloor>"
    using assms by (simp add: floatTo16BitPCM_sample_def ToInt16_def trunc_def Let_def max_def min_def)
  show "0 \<le> \<lfloor>x * 32767\<rfloor>" using assms by simp
  have "x * 32767 \<le> 32767" using assms by simp
  then show "\<lfloor>x * 32767\<rfloor> \<le> 32767" by (simp add: floor_le_iff) 
qed

lemma sample_neg:
  assumes "- 1 \<le> x" "x < 0"
  shows "floatTo16BitPCM_sample x = word_of_int (- \<lfloor>- (x * 32768)\<rfloor>)"
    and "- 32768 \<le> - \<lfloor>- (x * 32768)\<rfloor>" and "- \<lfloor>- (x * 32768)\<rfloor> \<le> 0"
proof -
  show "floatTo16BitPCM_sample x = word_of_int (- \<lfloor>- (x * 32768)\<rfloor>)"
    using assms by (simp add: floatTo16BitPCM_sample_def ToInt16_def trunc_def Let_def max_def min_def)
  have "- (x * 32768) \<le> 32768" using assms by simp
  then have "\<lfloor>- (x * 32768)\<rfloor> \<le> 32768" by (simp add: floor_le_iff)
  then show "- 32768 \<le> - \<lfloor>- (x * 32768)\<rfloor>" by simp
  have "0 \<le> - (x * 32768)" using assms by simp
  then have "0 \<le> \<lfloor>- (x * 32768)\<rfloor>" by simp
  then show "- \<lfloor>- (x * 32768)\<rfloor> \<le> 0" by simp
qed

lemma roundtrip_nonneg:
  assumes "0 \<le> x" "x \<le> 1"
  shows "0 \<le> x - real_of_int (sint (floatTo16BitPCM_sample x)) / 32768"
    and "x - real_of_int (sint (floatTo16BitPCM_sample x)) / 32768 < (x + 1) / 32768"
proof -
  let ?e = "\<lfloor>x * 32767\<rfloor>"
  have "sint (word_of_int ?e :: int16) = ?e"
    using sample_nonneg(2,3)[OF assms] by (intro sint_word_of_int_16) linarith+
  then have s: "sint (floatTo16BitPCM_sample x) = ?e"
    by (simp only: sample_nonneg(1)[OF assms])
  have le: "real_of_int ?e \<le> x * 32767" by simp
  have gt: "x * 32767 < real_of_int ?e + 1" by linarith
  have "real_of_int ?e \<le> x * 32768" using le assms by linarith
  then show "0 \<le> x - real_of_int (sint (floatTo16BitPCM_sample x)) / 32768"
    unfolding s by (simp add: field_simps)
  show "x - real_of_int (sint (floatTo16BitPCM_sample x)) / 32768 < (x + 1) / 32768"
    using gt unfolding s by (simp add: field_simps)
qed

lemma roundtrip_neg:
  assumes "- 1 \<le> x" "x < 0"
  shows "0 \<le> real_of_int (sint (floatTo16BitPCM_sample x)) / 32768 - x"
    and "real_of_int (sint (floatTo16BitPCM_sample x)) / 32768 - x < 1 / 32768"
proof -
  let ?e = "- \<lfloor>- (x * 32768)\<rfloor>"
  have "sint (word_of_int ?e :: int16) = ?e"
    using sample_neg(2,3)[OF assms] by (intro sint_word_of_int_16) linarith+
  then have s: "sint (floatTo16BitPCM_sample x) = ?e"
    by (simp only: sample_neg(1)[OF assms])
  have le: "x * 32768 \<le> real_of_int ?e" by linarith
  have gt: "real_of_int ?e < x * 32768 + 1" by linarith
  show "0 \<le> real_of_int (sint (floatTo16BitPCM_sample x)) / 32768 - x"
    using le unfolding s by (simp add: field_simps)
  show "real_of_int (sint (floatTo16BitPCM_sample x)) / 32768 - x < 1 / 32768"
    using gt unfolding s by (simp add: field_simps)
qed

lemma roundtrip_sample:
  assumes "- 1 \<le> x" "x \<le> 1"
  shows "\<bar>real_of_int (sint (floatTo16BitPCM_sample x)) / 32768 - x\<bar> < 2 / 32768"
    and "x < 0 \<Longrightarrow> \<bar>real_of_int (sint (floatTo16BitPCM_sample x)) / 32768 - x\<bar> < 1 / 32768"
proof -
  show "\<bar>real_of_int (sint (floatTo16BitPCM_sample x)) / 32768 - x\<bar> < 2 / 32768"
  proof (cases "x < 0")
    case True
    from roundtrip_neg[OF assms(1) True] show ?thesis by linarith
  next
    case False
    then have "0 \<le> x" by simp
    from roundtrip_nonneg[OF this assms(2)] assms(2) show ?thesis
      by (simp add: field_simps abs_if split: if_splits) 
  qed
  show "\<bar>real_of_int (sint (floatTo16BitPCM_sample x)) / 32768 - x\<bar> < 1 / 32768" if "x < 0"
    using roundtrip_neg[OF assms(1) that] by linarith
qed

lemma decodePCMData_floatTo16BitPCM:
  "xs \<noteq> [] \<Longrightarrow> decodePCMData (floatTo16BitPCM xs) =
     Inr \<lparr> numberOfChannels = 1, sampleRate = 24000,
           channelData = float32Data (map floatTo16BitPCM_sample xs) \<rparr>"
  by (simp add: decodePCMData_def pcmData_floatTo16BitPCM createBuffer_def float32Data_def)

subsection \<open>The round trip\<close>

text \<open>
  C3 (as amended). For every sample sequence with all values in \<open>[-1, 1]\<close>, viewing the
  bytes of \<open>floatTo16BitPCM\<close> as 16-bit words succeeds, and dividing the words by 32768
  gives a sequence of the same length in which every sample differs from the original
  by less than \<open>2 / 32768\<close>, and by less than \<open>1 / 32768\<close> where the original is
  negative. When the sequence is not empty, \<open>decodePCMData\<close> returns a buffer at
  24000 Hz holding exactly these samples.
\<close>

theorem pcm_roundtrip_error:
  assumes "\<forall>x\<in>set xs. - 1 \<le> x \<and> x \<le> 1"
  shows "\<exists>ws. pcmData (floatTo16BitPCM xs) = Inr ws
           \<and> length (float32Data ws) = length xs
           \<and> (\<forall>i<length xs. \<bar>float32Data ws ! i - xs ! i\<bar> < 2 / 32768
                  \<and> (xs ! i < 0 \<longrightarrow> \<bar>float32Data ws ! i - xs ! i\<bar> < 1 / 32768))
           \<and> (xs \<noteq> [] \<longrightarrow> decodePCMData (floatTo16BitPCM xs) =
                  Inr \<lparr> numberOfChannels = 1, sampleRate = 24000,
                        channelData = float32Data ws \<rparr>)"
proof (intro exI conjI)
  show "pcmData (floatTo16BitPCM xs) = Inr (map floatTo16BitPCM_sample xs)"
    by (rule pcmData_floatTo16BitPCM)
  show "length (float32Data (map floatTo16BitPCM_sample xs)) = length xs"
    by (simp add: float32Data_def)
  show "\<forall>i<length xs.
          \<bar>float32Data (map floatTo16BitPCM_sample xs) ! i - xs ! i\<bar> < 2 / 32768
          \<and> (xs ! i < 0 \<longrightarrow>
                \<bar>float32Data (map floatTo16BitPCM_sample xs) ! i - xs ! i\<bar> < 1 / 32768)"
  proof (intro allI impI)
    fix i assume i: "i < length xs"
    then have r: "- 1 \<le> xs ! i" "xs ! i \<le> 1" using assms by auto
    have v: "float32Data (map floatTo16BitPCM_sample xs) ! i =
               real_of_int (sint (floatTo16BitPCM_sample (xs ! i))) / 32768"
      using i by (simp add: float32Data_def)
    show "\<bar>float32Data (map floatTo16BitPCM_sample xs) ! i - xs ! i\<bar> < 2 / 32768
          \<and> (xs ! i < 0 \<longrightarrow>
                \<bar>float32Data (map floatTo16BitPCM_sample xs) ! i - xs ! i\<bar> < 1 / 32768)"
      unfolding v using roundtrip_sample[OF r] by blast
  qed
  show "xs \<noteq> [] \<longrightarrow> decodePCMData (floatTo16BitPCM xs) =
          Inr \<lparr> numberOfChannels = 1, sampleRate = 24000,
                channelData = float32Data (map floatTo16BitPCM_sample xs) \<rparr>"
    by (simp add: decodePCMData_floatTo16BitPCM)
qed

text \<open>The samples \<open>1\<close> and \<open>- 1 / 3\<close> come back as \<open>32767 / 32768\<close> and \<open>- 10922 / 32768\<close>.\<close>

theorem pcm_roundtrip_error_witness:
  "(- 1 \<le> (1::real) \<and> (1::real) \<le> 1) \<and> (- 1 \<le> (- 1 / 3 ::real) \<and> (- 1 / 3 ::real) \<le> 1)
   \<and> decodePCMData (floatTo16BitPCM [1, - 1 / 3]) =
        Inr \<lparr> numberOfChannels = 1, sampleRate = 24000,
              channelData = [32767 / 32768, - 10922 / 32768] \<rparr>
   \<and> \<bar>(32767 / 32768 :: real) - 1\<bar> < 2 / 32768
   \<and> \<bar>(- 10922 / 32768 :: real) - (- 1 / 3)\<bar> < 1 / 32768"
  using pcm_roundtrip_error [of "[1, - 1 / 3]"]
  by (simp add: decodePCMData_def createBuffer_def float32Data_def pcmData_floatTo16BitPCM
        floatTo16BitPCM_sample_def ToInt16_def trunc_def)

text \<open>
  C3 as stated, with the bound \<open>1 / 32768\<close>, fails: the sample \<open>65535 / 65536\<close> is
  encoded as 32766 and decoded as \<open>32766 / 32768\<close>, which is \<open>3 / 65536\<close> away.
\<close>

theorem pcm_roundtrip_counterexample:
  "decodePCMData (floatTo16BitPCM [65535 / 65536]) =
     Inr \<lparr> numberOfChannels = 1, sampleRate = 24000, channelData = [32766 / 32768] \<rparr>
   \<and> \<not> \<bar>(32766 / 32768 :: real) - 65535 / 65536\<bar> \<le> 1 / 32768"
  by (simp add: decodePCMData_def createBuffer_def float32Data_def pcmData_floatTo16BitPCM
        floatTo16BitPCM_sample_def ToInt16_def trunc_def)

subsection \<open>What sendAudioChunk transmits\<close>

text \<open>
  C2. \<open>sendAudioChunk\<close> does not call \<open>floatTo16BitPCM\<close>: it multiplies every sample
  by 32768 and stores it without clamping. For the full-scale sample \<open>1.0\<close> it
  transmits the bytes \<open>00 80\<close>, the word \<open>-32768\<close>, where \<open>floatTo16BitPCM\<close> gives
  \<open>FF 7F\<close>, the word \<open>32767\<close>.
\<close>

theorem sendAudioChunk_full_scale:
  "sendAudioChunk [1] None (Some s) =
     Some (s, \<lparr> mimeType = ''audio/pcm;rate=16000'', data = [0, 128] \<rparr>)
   \<and> pcmData [0, 128] = Inr [- 32768]
   \<and> sint (- 32768 :: int16) = - 32768
   \<and> floatTo16BitPCM [1] = [255, 127]
   \<and> pcmData [255, 127] = Inr [32767]"
  by (simp add: sendAudioChunk_def sendAudioChunk_int16_def ToInt16_def trunc_def
        int16_bytes_def int16_of_bytes_def floatTo16BitPCM_def floatTo16BitPCM_sample_def)

section \<open>Properties of the playback handler\<close>

subsection \<open>When decodePCMData throws\<close>

lemma pcmData_fails_iff_odd:
  "(\<exists>e. pcmData buffer = Inl e) \<longleftrightarrow> odd (length buffer)"
  by (induction buffer rule: pcmData.induct) (auto split: sum.splits)

lemma pcmData_length:
  "pcmData buffer = Inr ws \<Longrightarrow> length buffer = 2 * length ws"
  by (induction buffer arbitrary: ws rule: pcmData.induct) (auto split: sum.splits)

lemma decodePCMData_fails_iff:
  "(\<exists>e. decodePCMData buffer = Inl e) \<longleftrightarrow> odd (length buffer) \<or> buffer = []"
proof (cases "pcmData buffer")
  case (Inl e)
  then have "odd (length buffer)" using pcmData_fails_iff_odd by blast
  with Inl show ?thesis by (simp add: decodePCMData_def)
next
  case (Inr ws)
  then have ev: "\<not> odd (length buffer)" using pcmData_fails_iff_odd [of buffer] by simp
  have "length buffer = 2 * length ws" using Inr by (rule pcmData_length)
  then have "ws = [] \<longleftrightarrow> buffer = []" by auto
  with Inr ev show ?thesis
    by (auto simp add: decodePCMData_def createBuffer_def float32Data_def Let_def)
qed

lemma duration_nonneg: "0 \<le> duration b"
  by (simp add: duration_def)

subsection \<open>One call of the handler\<close>

lemma onAudioData_scheduled:
  "outputReady st \<Longrightarrow> decodePCMData raw = Inr buffer \<Longrightarrow>
   onAudioData t raw st =
     st\<lparr> aiSpeaking_state := True,
         nextStartTimeRef := max (nextStartTimeRef st) t + duration buffer,
         started := started st @ [(max (nextStartTimeRef st) t, buffer)] \<rparr>"
  by (simp add: onAudioData_def Let_def)

lemma onAudioData_dropped:
  "outputReady st \<Longrightarrow> decodePCMData raw = Inl e \<Longrightarrow>
   onAudioData t raw st =
     st\<lparr> aiSpeaking_state := True,
         nextStartTimeRef := max (nextStartTimeRef st) t,
         console := console st @ [''Audio decode error''] \<rparr>"
  by (simp add: onAudioData_def Let_def)

lemma onAudioData_not_ready: "\<not> outputReady st \<Longrightarrow> onAudioData t raw st = st"
  by (simp add: onAudioData_def)

lemma onAudioData_cursor_mono:
  "nextStartTimeRef st \<le> nextStartTimeRef (onAudioData t raw st)"
proof (cases "outputReady st")
  case False
  then show ?thesis by (simp add: onAudioData_not_ready)
next
  case True
  show ?thesis
  proof (cases "decodePCMData raw")
    case (Inl e)
    show ?thesis by (simp add: onAudioData_dropped [OF True Inl])
  next
    case (Inr buffer)
    have "0 \<le> duration buffer" by (rule duration_nonneg)
    then show ?thesis by (simp add: onAudioData_scheduled [OF True Inr] max_def)
  qed
qed

text \<open>Each call keeps the schedule in order, whatever the clock reads.\<close>

lemma onAudioData_inv:
  assumes "scheduleInv st"
  shows "scheduleInv (onAudioData t raw st)"
proof (cases "outputReady st")
  case False
  with assms show ?thesis by (simp add: onAudioData_not_ready)
next
  case True
  show ?thesis
  proof (cases "decodePCMData raw")
    case (Inl e)
    have "list_all (\<lambda>a. segmentEnd a \<le> max (nextStartTimeRef st) t) (started st)"
      using assms by (auto simp: scheduleInv_def list_all_iff)
    with assms show ?thesis
      by (simp add: onAudioData_dropped [OF True Inl] scheduleInv_def)
  next
    case (Inr buffer)
    let ?s = "max (nextStartTimeRef st) t"
    have d: "0 \<le> duration buffer" by (rule duration_nonneg)
    have a: "\<forall>a\<in>set (started st). segmentEnd a \<le> ?s"
      using assms by (auto simp: scheduleInv_def list_all_iff)
    then have b: "\<forall>a\<in>set (started st). segmentEnd a \<le> ?s + duration buffer"
      using d by fastforce
    show ?thesis
      using assms a b
      by (simp add: onAudioData_scheduled [OF True Inr] scheduleInv_def sorted_wrt_append
            list_all_iff segmentEnd_def)
  qed
qed

subsection \<open>A sequence of calls\<close>

lemma onAudioDataAll_inv:
  "scheduleInv st \<Longrightarrow> scheduleInv (onAudioDataAll events st)"
  by (induction events st rule: onAudioDataAll.induct) (simp_all add: onAudioData_inv)

lemma onAudioDataAll_cursor_mono:
  "nextStartTimeRef st \<le> nextStartTimeRef (onAudioDataAll events st)"
proof (induction events st rule: onAudioDataAll.induct)
  case (1 st)
  show ?case by simp
next
  case (2 currentTime raw rest st)
  have "nextStartTimeRef st \<le> nextStartTimeRef (onAudioData currentTime raw st)"
    by (rule onAudioData_cursor_mono)
  with 2 show ?case by simp
qed

text \<open>
  C1. A payload that decodes is started at the maximum of the cursor and the clock, and
  the cursor becomes that start plus the duration of the buffer. No call and no
  sequence of calls lowers the cursor. From a screen on which nothing is scheduled yet,
  after any sequence of payloads and clock readings, every scheduled segment ends no
  later than every segment scheduled after it starts.
\<close>

theorem playback_segments_never_overlap:
  "(outputReady st \<and> decodePCMData raw = Inr buffer \<longrightarrow>
      started (onAudioData t raw st) = started st @ [(max (nextStartTimeRef st) t, buffer)]
      \<and> nextStartTimeRef (onAudioData t raw st) = max (nextStartTimeRef st) t + duration buffer)
   \<and> nextStartTimeRef st \<le> nextStartTimeRef (onAudioData t raw st)
   \<and> nextStartTimeRef st \<le> nextStartTimeRef (onAudioDataAll events st)
   \<and> (started st = [] \<longrightarrow>
        (\<forall>i j. i < j \<and> j < length (started (onAudioDataAll events st)) \<longrightarrow>
           fst (started (onAudioDataAll events st) ! i)
             + duration (snd (started (onAudioDataAll events st) ! i))
           \<le> fst (started (onAudioDataAll events st) ! j)))"
proof (intro conjI impI)
  assume "outputReady st \<and> decodePCMData raw = Inr buffer"
  then have r: "outputReady st" and d: "decodePCMData raw = Inr buffer" by simp_all
  show "started (onAudioData t raw st) = started st @ [(max (nextStartTimeRef st) t, buffer)]"
    by (simp add: onAudioData_scheduled [OF r d])
  show "nextStartTimeRef (onAudioData t raw st) = max (nextStartTimeRef st) t + duration buffer"
    by (simp add: onAudioData_scheduled [OF r d])
next
  show "nextStartTimeRef st \<le> nextStartTimeRef (onAudioData t raw st)"
    by (rule onAudioData_cursor_mono)
  show "nextStartTimeRef st \<le> nextStartTimeRef (onAudioDataAll events st)"
    by (rule onAudioDataAll_cursor_mono)
next
  assume "started st = []"
  then have "scheduleInv st" by (simp add: scheduleInv_def)
  then have "scheduleInv (onAudioDataAll events st)" by (rule onAudioDataAll_inv)
  then have "sorted_wrt (\<lambda>a b. segmentEnd a \<le> fst b) (started (onAudioDataAll events st))"
    by (simp add: scheduleInv_def)
  then show "\<forall>i j. i < j \<and> j < length (started (onAudioDataAll events st)) \<longrightarrow>
           fst (started (onAudioDataAll events st) ! i)
             + duration (snd (started (onAudioDataAll events st) ! i))
           \<le> fst (started (onAudioDataAll events st) ! j)"
    by (simp add: sorted_wrt_iff_nth_less segmentEnd_def)
qed

text \<open>
  Three payloads, the second arriving with an earlier clock reading than the first and
  the third after a pause: two samples at 0.5 s, one sample right behind them, one
  sample at 3 s.
\<close>

lemma decodePCMData_two_samples:
  "decodePCMData [0, 64, 0, 192] =
     Inr \<lparr> numberOfChannels = 1, sampleRate = 24000, channelData = [1 / 2, - 1 / 2] \<rparr>"
  by (simp add: decodePCMData_def createBuffer_def float32Data_def int16_of_bytes_def)

lemma decodePCMData_one_sample:
  "decodePCMData [0, 64] =
     Inr \<lparr> numberOfChannels = 1, sampleRate = 24000, channelData = [1 / 2] \<rparr>"
  by (simp add: decodePCMData_def createBuffer_def float32Data_def int16_of_bytes_def)

lemma decodePCMData_odd: "decodePCMData [7] = Inl RangeError"
  by (simp add: decodePCMData_def)

lemma onAudioDataAll_sample_run:
  "started (onAudioDataAll [(1 / 2, [0, 64, 0, 192]), (1 / 10, [0, 64]), (3, [0, 64])]
              readyScreen) =
     [(1 / 2, \<lparr> numberOfChannels = 1, sampleRate = 24000, channelData = [1 / 2, - 1 / 2] \<rparr>),
      (1 / 2 + 2 / 24000, \<lparr> numberOfChannels = 1, sampleRate = 24000, channelData = [1 / 2] \<rparr>),
      (3, \<lparr> numberOfChannels = 1, sampleRate = 24000, channelData = [1 / 2] \<rparr>)]"
  by (simp add: onAudioData_def decodePCMData_two_samples decodePCMData_one_sample
        readyScreen_def initialScreen_def duration_def Let_def)

theorem playback_segments_never_overlap_witness:
  "outputReady readyScreen
   \<and> decodePCMData [0, 64, 0, 192] =
       Inr \<lparr> numberOfChannels = 1, sampleRate = 24000, channelData = [1 / 2, - 1 / 2] \<rparr>
   \<and> started readyScreen = []
   \<and> started (onAudioData (1 / 2) [0, 64, 0, 192] readyScreen) =
       [(1 / 2, \<lparr> numberOfChannels = 1, sampleRate = 24000, channelData = [1 / 2, - 1 / 2] \<rparr>)]
   \<and> nextStartTimeRef (onAudioData (1 / 2) [0, 64, 0, 192] readyScreen) = 1 / 2 + 2 / 24000
   \<and> (0::nat) < 1
   \<and> 1 < length (started (onAudioDataAll
                     [(1 / 2, [0, 64, 0, 192]), (1 / 10, [0, 64]), (3, [0, 64])] readyScreen))
   \<and> fst (started (onAudioDataAll
                     [(1 / 2, [0, 64, 0, 192]), (1 / 10, [0, 64]), (3, [0, 64])] readyScreen) ! 0)
       + duration (snd (started (onAudioDataAll
                     [(1 / 2, [0, 64, 0, 192]), (1 / 10, [0, 64]), (3, [0, 64])] readyScreen) ! 0))
       \<le> fst (started (onAudioDataAll
                     [(1 / 2, [0, 64, 0, 192]), (1 / 10, [0, 64]), (3, [0, 64])] readyScreen) ! 1)"
proof -
  let ?events = "[(1 / 2, [0, 64, 0, 192]), (1 / 10, [0, 64]), (3, [0, 64 :: byte])]"
  let ?run = "started (onAudioDataAll ?events readyScreen)"
  have ready: "outputReady readyScreen" "started readyScreen = []"
    by (simp_all add: readyScreen_def initialScreen_def)
  have first: "started (onAudioData (1 / 2) [0, 64, 0, 192] readyScreen) =
      [(1 / 2, \<lparr> numberOfChannels = 1, sampleRate = 24000, channelData = [1 / 2, - 1 / 2] \<rparr>)]"
    "nextStartTimeRef (onAudioData (1 / 2) [0, 64, 0, 192] readyScreen) = 1 / 2 + 2 / 24000"
    by (simp_all add: onAudioData_def decodePCMData_two_samples readyScreen_def
          initialScreen_def duration_def Let_def)
  have len: "1 < length ?run"
    by (subst onAudioDataAll_sample_run) simp
  from playback_segments_never_overlap
         [of readyScreen "[0, 64, 0, 192]"
             "\<lparr> numberOfChannels = 1, sampleRate = 24000, channelData = [1 / 2, - 1 / 2] \<rparr>"
             "1 / 2" ?events] ready(2)
  have "\<forall>i j. i < j \<and> j < length ?run \<longrightarrow>
          fst (?run ! i) + duration (snd (?run ! i)) \<le> fst (?run ! j)"
    by blast
  then have "0 < (1::nat) \<and> 1 < length ?run \<longrightarrow>
          fst (?run ! 0) + duration (snd (?run ! 0)) \<le> fst (?run ! 1)"
    by blast
  with len have ord: "fst (?run ! 0) + duration (snd (?run ! 0)) \<le> fst (?run ! 1)"
    by simp
  show ?thesis
    using ready first decodePCMData_two_samples len ord by blast
qed

subsection \<open>A payload that does not decode\<close>

text \<open>
  C7 (as amended). When the payload does not decode, nothing is scheduled and the error
  is printed. The cursor is not advanced by any duration: it is the maximum of its old
  value and the clock, because the handler takes that maximum before it decodes. So the
  cursor keeps its value exactly when the clock has not passed it.
\<close>

theorem decode_failure_keeps_schedule:
  assumes "decodePCMData raw = Inl e"
  shows "started (onAudioData t raw st) = started st
         \<and> nextStartTimeRef (onAudioData t raw st) =
             (if outputReady st then max (nextStartTimeRef st) t else nextStartTimeRef st)
         \<and> (t \<le> nextStartTimeRef st \<longrightarrow>
               nextStartTimeRef (onAudioData t raw st) = nextStartTimeRef st)
         \<and> (outputReady st \<longrightarrow>
               console (onAudioData t raw st) = console st @ [''Audio decode error''])"
  using assms by (simp add: onAudioData_def Let_def)

text \<open>A payload of one byte, with the cursor at 2 s and the clock at 1 s.\<close>

theorem decode_failure_keeps_schedule_witness:
  "decodePCMData [7] = Inl RangeError
   \<and> (1::real) \<le> nextStartTimeRef (readyScreen\<lparr> nextStartTimeRef := 2 \<rparr>)
   \<and> outputReady (readyScreen\<lparr> nextStartTimeRef := 2 \<rparr>)
   \<and> started (onAudioData 1 [7] (readyScreen\<lparr> nextStartTimeRef := 2 \<rparr>)) = []
   \<and> nextStartTimeRef (onAudioData 1 [7] (readyScreen\<lparr> nextStartTimeRef := 2 \<rparr>)) = 2
   \<and> console (onAudioData 1 [7] (readyScreen\<lparr> nextStartTimeRef := 2 \<rparr>)) =
       [''Audio decode error'']"
  using decode_failure_keeps_schedule
          [of "[7]" RangeError 1 "readyScreen\<lparr> nextStartTimeRef := 2 \<rparr>"]
  by (simp add: decodePCMData_odd readyScreen_def initialScreen_def)

text \<open>
  C7 as stated fails: with the cursor at 0 and the clock at 5 s, the same payload leaves
  the cursor at 5.
\<close>

theorem decode_failure_moves_cursor_to_clock:
  "decodePCMData [7] = Inl RangeError
   \<and> nextStartTimeRef readyScreen = 0
   \<and> nextStartTimeRef (onAudioData 5 [7] readyScreen) = 5"
  by (simp add: onAudioData_def decodePCMData_def readyScreen_def initialScreen_def Let_def)

section \<open>Properties of the speech-rate analyzer\<close>

subsection \<open>The peak loop\<close>

text \<open>
  Every crossing found during one call is compared with \<open>lastPeakTime\<close> under the same
  \<open>now\<close>. Once a crossing is counted, \<open>lastPeakTime\<close> is \<open>now\<close>, the distance is 0 and
  the rest of the buffer counts nothing.
\<close>

lemma peakLoop_refractory:
  "now - lastPeakTime d \<le> minPeakDist \<Longrightarrow> peakLoop now prev xs d = d"
  by (induction xs arbitrary: prev) simp_all

lemma peakLoop_once:
  "peakLoop now prev xs d = d
   \<or> peakLoop now prev xs d = d\<lparr> peaks := peaks d + 1, lastPeakTime := now \<rparr>"
proof (induction xs arbitrary: prev)
  case Nil
  show ?case by simp
next
  case (Cons x xs)
  show ?case
  proof (cases "x > threshold \<and> prev \<le> threshold \<and> now - lastPeakTime d > minPeakDist")
    case True
    have "peakLoop now x xs (d\<lparr> peaks := peaks d + 1, lastPeakTime := now \<rparr>)
            = d\<lparr> peaks := peaks d + 1, lastPeakTime := now \<rparr>"
      by (rule peakLoop_refractory) (simp add: minPeakDist_def)
    with True show ?thesis by simp
  next
    case False
    then have "peakLoop now prev (x # xs) d = peakLoop now x xs d" by auto
    with Cons.IH [of x] show ?thesis by simp
  qed
qed

lemma countPeaks_once:
  "countPeaks now inputData d = d
   \<or> countPeaks now inputData d = d\<lparr> peaks := peaks d + 1, lastPeakTime := now \<rparr>"
  using peakLoop_once by (cases inputData) (simp_all add: countPeaks_def)

subsection \<open>One call of analyzeSpeechRate\<close>

lemma addNudge_speechRateDataRef:
  "speechRateDataRef (addNudge c now rid type msg st) = speechRateDataRef st"
  by (simp add: addNudge_def)

lemma analyzeSpeechRate_data:
  "speechRateDataRef (snd (analyzeSpeechRate c now rid inputData st)) =
     countPeaks now inputData
       (if now - startTime (speechRateDataRef st) > 3000
        then (speechRateDataRef st)\<lparr> peaks := 0, startTime := now \<rparr>
        else speechRateDataRef st)"
  by (simp add: analyzeSpeechRate_def Let_def split_def)

lemma analyzeSpeechRate_emitted:
  "fst (analyzeSpeechRate c now rid inputData st) =
     (if now - startTime (speechRateDataRef st) > 3000
         \<and> peaks (speechRateDataRef st) > 2 \<and> \<not> aiSpeaking c
      then (if rate (speechRateDataRef st) now > 4.5 then [tooFast]
            else if rate (speechRateDataRef st) now < 1.5 then [uncertain]
            else [])
      else [])"
  by (simp add: analyzeSpeechRate_def Let_def split_def)

text \<open>
  C10. One call of \<open>analyzeSpeechRate\<close> raises the peak count by at most 1, however many
  rising edges the buffer holds: after the call the count is the count left by the
  window check (0 if the window was reset, the old count otherwise) or that count plus 1,
  and in the second case \<open>lastPeakTime\<close> is the time of the call.
\<close>

theorem peak_count_grows_by_at_most_one:
  "peaks (speechRateDataRef (snd (analyzeSpeechRate c now rid inputData st)))
     \<le> peaks (speechRateDataRef st) + 1
   \<and> (let base = (if now - startTime (speechRateDataRef st) > 3000 then 0
                   else peaks (speechRateDataRef st));
           after = speechRateDataRef (snd (analyzeSpeechRate c now rid inputData st))
       in peaks after = base \<or> (peaks after = base + 1 \<and> lastPeakTime after = now))"
proof -
  let ?d = "if now - startTime (speechRateDataRef st) > 3000
            then (speechRateDataRef st)\<lparr> peaks := 0, startTime := now \<rparr>
            else speechRateDataRef st"
  have "countPeaks now inputData ?d = ?d
        \<or> countPeaks now inputData ?d = ?d\<lparr> peaks := peaks ?d + 1, lastPeakTime := now \<rparr>"
    by (rule countPeaks_once)
  then show ?thesis
    unfolding analyzeSpeechRate_data Let_def by (auto split: if_splits)
qed

text \<open>A buffer with three rising edges, 256 ms into the window, counts one peak.\<close>

theorem peak_count_grows_by_at_most_one_witness:
  "peaks (speechRateDataRef (sessionStart 1700000000000)) = 0
   \<and> peaks (speechRateDataRef (snd (analyzeSpeechRate liveScope 1700000000256 ''n''
              [0, 1, 0, 1, 0, 1] (sessionStart 1700000000000)))) = 1
   \<and> lastPeakTime (speechRateDataRef (snd (analyzeSpeechRate liveScope 1700000000256 ''n''
              [0, 1, 0, 1, 0, 1] (sessionStart 1700000000000)))) = 1700000000256"
  using peak_count_grows_by_at_most_one
          [of liveScope 1700000000256 "''n''" "[0, 1, 0, 1, 0, 1]" "sessionStart 1700000000000"]
  by (simp add: analyzeSpeechRate_data countPeaks_def threshold_def minPeakDist_def
        sessionStart_def initialScreen_def)

text \<open>
  The handlers of a session read the scope of the render that ran \<open>startSession\<close>, in
  which \<open>aiSpeaking\<close> is false whatever is stored later; a handler of a render made
  while the speaking indicator is off reads false as well.
\<close>

lemma liveScope_render: "liveScope = render initialScreen"
  by (simp add: liveScope_def render_def initialScreen_def)

text \<open>
  C4. For the scope of a session, and for the scope of a render in which the AI is not
  speaking: when a buffer is analyzed more than 3000 ms after the window started, the
  rate is the peak count divided by the elapsed seconds; a trigger is passed to
  \<open>addNudge\<close> only if the peak count exceeds 2, and then it is ``too fast'' exactly when
  the rate exceeds 4.5 and ``uncertain'' exactly when the rate is below 1.5; the window is
  then reset to no peaks starting now, before the peaks of this buffer are counted. A
  buffer analyzed within the window triggers nothing. In particular a window closed with
  10 peaks after at most 6666 ms triggers nothing, and a window closed with 20 peaks
  after at most 4444 ms triggers ``too fast'' once.
\<close>

theorem speech_rate_window:
  assumes "c = liveScope \<or> (c = render st \<and> \<not> aiSpeaking_state st)"
  shows
  "(3000 < now - startTime (speechRateDataRef st) \<longrightarrow>
      fst (analyzeSpeechRate c now rid inputData st) =
        (if peaks (speechRateDataRef st) > 2
         then (if rate (speechRateDataRef st) now > 4.5 then [tooFast]
               else if rate (speechRateDataRef st) now < 1.5 then [uncertain]
               else [])
         else [])
      \<and> rate (speechRateDataRef st) now =
          real (peaks (speechRateDataRef st))
            / (real_of_int (now - startTime (speechRateDataRef st)) / 1000)
      \<and> speechRateDataRef (snd (analyzeSpeechRate c now rid inputData st)) =
          countPeaks now inputData ((speechRateDataRef st)\<lparr> peaks := 0, startTime := now \<rparr>))
   \<and> (now - startTime (speechRateDataRef st) \<le> 3000 \<longrightarrow>
        fst (analyzeSpeechRate c now rid inputData st) = []
        \<and> speechRateDataRef (snd (analyzeSpeechRate c now rid inputData st)) =
            countPeaks now inputData (speechRateDataRef st))
   \<and> (3000 < now - startTime (speechRateDataRef st)
        \<and> now - startTime (speechRateDataRef st) \<le> 6666
        \<and> peaks (speechRateDataRef st) = 10 \<longrightarrow>
        fst (analyzeSpeechRate c now rid inputData st) = [])
   \<and> (3000 < now - startTime (speechRateDataRef st)
        \<and> now - startTime (speechRateDataRef st) \<le> 4444
        \<and> peaks (speechRateDataRef st) = 20 \<longrightarrow>
        fst (analyzeSpeechRate c now rid inputData st) = [tooFast])"
proof -
  have quiet: "\<not> aiSpeaking c"
    using assms by (auto simp add: liveScope_def render_def)
  show ?thesis
  proof (intro conjI impI)
    assume "3000 < now - startTime (speechRateDataRef st)"
    then show "fst (analyzeSpeechRate c now rid inputData st) =
        (if peaks (speechRateDataRef st) > 2
         then (if rate (speechRateDataRef st) now > 4.5 then [tooFast]
               else if rate (speechRateDataRef st) now < 1.5 then [uncertain]
               else [])
         else [])"
      using quiet by (simp add: analyzeSpeechRate_emitted)
  next
    show "rate (speechRateDataRef st) now =
          real (peaks (speechRateDataRef st))
            / (real_of_int (now - startTime (speechRateDataRef st)) / 1000)"
      by (simp add: rate_def)
  next
    assume "3000 < now - startTime (speechRateDataRef st)"
    then show "speechRateDataRef (snd (analyzeSpeechRate c now rid inputData st)) =
          countPeaks now inputData ((speechRateDataRef st)\<lparr> peaks := 0, startTime := now \<rparr>)"
      by (simp add: analyzeSpeechRate_data)
  next
    assume "now - startTime (speechRateDataRef st) \<le> 3000"
    then show "fst (analyzeSpeechRate c now rid inputData st) = []"
      by (simp add: analyzeSpeechRate_emitted)
  next
    assume "now - startTime (speechRateDataRef st) \<le> 3000"
    then show "speechRateDataRef (snd (analyzeSpeechRate c now rid inputData st)) =
            countPeaks now inputData (speechRateDataRef st)"
      by (simp add: analyzeSpeechRate_data)
  next
    assume a: "3000 < now - startTime (speechRateDataRef st)
        \<and> now - startTime (speechRateDataRef st) \<le> 6666
        \<and> peaks (speechRateDataRef st) = 10"
    let ?el = "real_of_int (now - startTime (speechRateDataRef st))"
    have el: "3000 < ?el" "?el \<le> 6666" using a by linarith+
    have r: "rate (speechRateDataRef st) now = 10000 / ?el"
      using a by (simp add: rate_def)
    have "\<not> 10000 / ?el > 4.5" using el by (simp add: field_simps)
    moreover have "\<not> 10000 / ?el < 1.5" using el by (simp add: field_simps)
    ultimately show "fst (analyzeSpeechRate c now rid inputData st) = []"
      by (simp add: analyzeSpeechRate_emitted r)
  next
    assume a: "3000 < now - startTime (speechRateDataRef st)
        \<and> now - startTime (speechRateDataRef st) \<le> 4444
        \<and> peaks (speechRateDataRef st) = 20"
    let ?el = "real_of_int (now - startTime (speechRateDataRef st))"
    have el: "3000 < ?el" "?el \<le> 4444" using a by linarith+
    have r: "rate (speechRateDataRef st) now = 20000 / ?el"
      using a by (simp add: rate_def)
    have "20000 / ?el > 4.5" using el by (simp add: field_simps)
    then show "fst (analyzeSpeechRate c now rid inputData st) = [tooFast]"
      using a quiet by (simp add: analyzeSpeechRate_emitted r)
  qed
qed

text \<open>
  Ten buffers with a rising edge each, 300 ms apart, and the buffer that closes the window
  at 3001 ms trigger nothing; twenty such buffers 151 ms apart trigger ``too fast'' at
  3001 ms and nothing more in the next window.
\<close>

lemma ten_peaks_trigger_nothing:
  "fst (analyzeStream liveScope
          (pulses 1700000000000 300 10 @ [(1700000003001, ''n'', [0, 0])])
          (sessionStart 1700000000000)) = []"
  by (simp add: pulses_def upt_rec sessionStart_def initialScreen_def liveScope_def
        analyzeSpeechRate_def Let_def countPeaks_def threshold_def minPeakDist_def rate_def
        addNudge_def lastTime_def NUDGE_COOLDOWN_def)

lemma twenty_peaks_trigger_once:
  "fst (analyzeStream liveScope
          (pulses 1700000000000 151 20
             @ [(1700000003001, ''n'', [0, 0]), (1700000003300, ''m'', [0, 1]),
                (1700000006002, ''k'', [0, 0])])
          (sessionStart 1700000000000)) = [tooFast]"
  by (simp add: pulses_def upt_rec sessionStart_def initialScreen_def liveScope_def
        analyzeSpeechRate_def Let_def countPeaks_def threshold_def minPeakDist_def rate_def
        addNudge_def lastTime_def NUDGE_COOLDOWN_def)

text \<open>The states in which twenty and ten such buffers leave the window.\<close>

lemma twenty_pulses_state:
  "speechRateDataRef (snd (analyzeStream liveScope (pulses 1700000000000 151 20)
                             (sessionStart 1700000000000))) =
     \<lparr> peaks = 20, startTime = 1700000000000, lastPeakTime = 1700000002869 \<rparr>"
  by (simp add: pulses_def upt_rec sessionStart_def initialScreen_def liveScope_def
        analyzeSpeechRate_def Let_def countPeaks_def threshold_def minPeakDist_def)

lemma ten_pulses_state:
  "speechRateDataRef (snd (analyzeStream liveScope (pulses 1700000000000 300 10)
                             (sessionStart 1700000000000))) =
     \<lparr> peaks = 10, startTime = 1700000000000, lastPeakTime = 1700000002700 \<rparr>"
  "aiSpeaking_state (snd (analyzeStream liveScope (pulses 1700000000000 300 10)
                             (sessionStart 1700000000000))) = False"
  by (simp_all add: pulses_def upt_rec sessionStart_def initialScreen_def liveScope_def
        analyzeSpeechRate_def Let_def countPeaks_def threshold_def minPeakDist_def)

text \<open>
  The window of 20 peaks closed at 3001 ms by the session's handler, and the window of 10
  peaks closed at 3001 ms by a handler of the current render.
\<close>

theorem speech_rate_window_witness:
  "3000 < 1700000003001 - startTime (speechRateDataRef
       (snd (analyzeStream liveScope (pulses 1700000000000 151 20) (sessionStart 1700000000000))))
   \<and> peaks (speechRateDataRef
       (snd (analyzeStream liveScope (pulses 1700000000000 151 20) (sessionStart 1700000000000))))
       = 20
   \<and> fst (analyzeSpeechRate liveScope 1700000003001 ''n'' [0, 0]
       (snd (analyzeStream liveScope (pulses 1700000000000 151 20) (sessionStart 1700000000000))))
       = [tooFast]
   \<and> speechRateDataRef (snd (analyzeSpeechRate liveScope 1700000003001 ''n'' [0, 0]
       (snd (analyzeStream liveScope (pulses 1700000000000 151 20) (sessionStart 1700000000000)))))
       = \<lparr> peaks = 0, startTime = 1700000003001, lastPeakTime = 1700000002869 \<rparr>
   \<and> \<not> aiSpeaking_state
       (snd (analyzeStream liveScope (pulses 1700000000000 300 10) (sessionStart 1700000000000)))
   \<and> fst (analyzeSpeechRate
       (render (snd (analyzeStream liveScope (pulses 1700000000000 300 10)
                       (sessionStart 1700000000000))))
       1700000003001 ''n'' [0, 0]
       (snd (analyzeStream liveScope (pulses 1700000000000 300 10) (sessionStart 1700000000000))))
       = []"
proof -
  let ?st20 = "snd (analyzeStream liveScope (pulses 1700000000000 151 20)
                      (sessionStart 1700000000000))"
  let ?st10 = "snd (analyzeStream liveScope (pulses 1700000000000 300 10)
                      (sessionStart 1700000000000))"
  have c20: "liveScope = liveScope \<or> (liveScope = render ?st20 \<and> \<not> aiSpeaking_state ?st20)"
    by simp
  have c10: "render ?st10 = liveScope \<or> (render ?st10 = render ?st10 \<and> \<not> aiSpeaking_state ?st10)"
    by (simp only: ten_pulses_state) simp
  from speech_rate_window [OF c20, of 1700000003001 "''n''" "[0, 0]"]
  have a: "fst (analyzeSpeechRate liveScope 1700000003001 ''n'' [0, 0] ?st20) = [tooFast]"
    "speechRateDataRef (snd (analyzeSpeechRate liveScope 1700000003001 ''n'' [0, 0] ?st20))
       = \<lparr> peaks = 0, startTime = 1700000003001, lastPeakTime = 1700000002869 \<rparr>"
    by (simp_all only: twenty_pulses_state) (simp_all add: countPeaks_def threshold_def)
  from speech_rate_window [OF c10, of 1700000003001 "''n''" "[0, 0]"]
  have b: "fst (analyzeSpeechRate (render ?st10) 1700000003001 ''n'' [0, 0] ?st10) = []"
    by (simp only: ten_pulses_state) simp
  show ?thesis
    using a b by (simp only: twenty_pulses_state ten_pulses_state) simp
qed

section \<open>Properties of the advisories\<close>

subsection \<open>Admission\<close>

lemma addNudge_rejected_active:
  "nudges c \<noteq> [] \<Longrightarrow> addNudge c now rid type msg st = st"
  by (simp add: addNudge_def)

lemma addNudge_rejected_cooldown:
  "now - lastTime st type < NUDGE_COOLDOWN \<Longrightarrow> addNudge c now rid type msg st = st"
  by (simp add: addNudge_def)

lemma addNudge_admitted:
  "nudges c = [] \<Longrightarrow> NUDGE_COOLDOWN \<le> now - lastTime st type \<Longrightarrow>
   addNudge c now rid type msg st =
     st\<lparr> nudges_state :=
           [\<lparr> nudge_id = rid, nudge_type = type, nudge_message = msg, nudge_timestamp = now \<rparr>],
         lastNudgeTimeRef := (lastNudgeTimeRef st)(type \<mapsto> now) \<rparr>"
  by (simp add: addNudge_def)

text \<open>The stored set never holds more than one advisory.\<close>

lemma nudges_state_at_most_one:
  "length (nudges_state st) \<le> 1 \<Longrightarrow>
   length (nudges_state (addNudge c now rid type msg st)) \<le> 1
   \<and> length (nudges_state (nudgeTimeout rid st)) \<le> 1"
proof -
  assume a: "length (nudges_state st) \<le> 1"
  have "length (filter (\<lambda>n. nudge_id n \<noteq> rid) (nudges_state st)) \<le> length (nudges_state st)"
    by (rule length_filter_le)
  with a have "length (filter (\<lambda>n. nudge_id n \<noteq> rid) (nudges_state st)) \<le> 1"
    by linarith
  with a show ?thesis by (simp add: addNudge_def nudgeTimeout_def)
qed


lemma scope_sees_none:
  "(c = liveScope \<or> c = render st) \<Longrightarrow> nudges_state st = [] \<Longrightarrow> nudges c = []"
  by (auto simp add: liveScope_def render_def)

text \<open>
  Two calls from one closure that sees no advisory would both be admitted, the second
  advisory replacing the first. The only two calls in a row are those of \<open>loop\<close>.
\<close>

lemma addNudge_twice_same_scope:
  assumes "nudges c = []" "type1 \<noteq> type2"
    and "NUDGE_COOLDOWN \<le> now - lastTime st type1" "NUDGE_COOLDOWN \<le> now - lastTime st type2"
  shows "nudges_state (addNudge c now rid2 type2 msg2 (addNudge c now rid1 type1 msg1 st)) =
           [\<lparr> nudge_id = rid2, nudge_type = type2, nudge_message = msg2, nudge_timestamp = now \<rparr>]"
  using assms by (simp add: addNudge_def lastTime_def)

subsection \<open>The handlers of a session\<close>






lemma countPeaks_update_nudgeInv:
  "nudgeInv (st\<lparr> speechRateDataRef := d \<rparr>) = nudgeInv st"
  by (simp add: nudgeInv_def)
















subsection \<open>One advisory at a time\<close>



subsection \<open>The cooldown of a category\<close>

text \<open>
  C6. A trigger for a category that last fired less than \<open>NUDGE_COOLDOWN\<close> (30000 ms)
  before is rejected: the state stays as it is. A trigger that arrives when no advisory
  is stored and the category last fired at least 30000 ms before is admitted, by a
  handler of the session or of the current render: its advisory is stored and the
  category is stamped with the time of admission. After such an admission a second
  trigger for the category less than 30000 ms later is rejected by any handler; and once
  the timer of the advisory has run, so that none is stored, a trigger at least 30000 ms
  after the admission is admitted again.
\<close>

theorem nudge_cooldown:
  "(now - lastTime st type < NUDGE_COOLDOWN \<longrightarrow> addNudge c now rid type msg st = st)
   \<and> ((c = liveScope \<or> c = render st) \<and> nudges_state st = []
        \<and> NUDGE_COOLDOWN \<le> now - lastTime st type \<longrightarrow>
        nudges_state (addNudge c now rid type msg st) =
          [\<lparr> nudge_id = rid, nudge_type = type, nudge_message = msg, nudge_timestamp = now \<rparr>]
        \<and> lastNudgeTimeRef (addNudge c now rid type msg st) = (lastNudgeTimeRef st)(type \<mapsto> now)
        \<and> lastTime (addNudge c now rid type msg st) type = now)
   \<and> ((c = liveScope \<or> c = render st) \<and> nudges_state st = []
        \<and> NUDGE_COOLDOWN \<le> now - lastTime st type
        \<and> later - now < NUDGE_COOLDOWN \<longrightarrow>
        addNudge c' later rid' type msg' (addNudge c now rid type msg st) =
          addNudge c now rid type msg st)
   \<and> ((c = liveScope \<or> c = render st) \<and> nudges_state st = []
        \<and> NUDGE_COOLDOWN \<le> now - lastTime st type
        \<and> NUDGE_COOLDOWN \<le> later - now
        \<and> (c' = liveScope \<or> c' = render (nudgeTimeout rid (addNudge c now rid type msg st))) \<longrightarrow>
        nudges_state (nudgeTimeout rid (addNudge c now rid type msg st)) = []
        \<and> nudges_state (addNudge c' later rid' type msg'
                           (nudgeTimeout rid (addNudge c now rid type msg st))) =
            [\<lparr> nudge_id = rid', nudge_type = type, nudge_message = msg',
               nudge_timestamp = later \<rparr>]
        \<and> lastTime (addNudge c' later rid' type msg'
                       (nudgeTimeout rid (addNudge c now rid type msg st))) type = later)"
proof (intro conjI impI)
  assume "now - lastTime st type < NUDGE_COOLDOWN"
  then show "addNudge c now rid type msg st = st" by (simp add: addNudge_def)
next
  assume a: "(c = liveScope \<or> c = render st) \<and> nudges_state st = []
        \<and> NUDGE_COOLDOWN \<le> now - lastTime st type"
  then have "nudges c = []" using scope_sees_none by blast
  with a have adm: "addNudge c now rid type msg st =
      st\<lparr> nudges_state :=
            [\<lparr> nudge_id = rid, nudge_type = type, nudge_message = msg, nudge_timestamp = now \<rparr>],
          lastNudgeTimeRef := (lastNudgeTimeRef st)(type \<mapsto> now) \<rparr>"
    by (intro addNudge_admitted) simp_all
  show "nudges_state (addNudge c now rid type msg st) =
          [\<lparr> nudge_id = rid, nudge_type = type, nudge_message = msg, nudge_timestamp = now \<rparr>]"
    by (simp add: adm)
  show "lastNudgeTimeRef (addNudge c now rid type msg st) = (lastNudgeTimeRef st)(type \<mapsto> now)"
    by (simp add: adm)
  show "lastTime (addNudge c now rid type msg st) type = now"
    by (simp add: adm lastTime_def)
next
  assume a: "(c = liveScope \<or> c = render st) \<and> nudges_state st = []
        \<and> NUDGE_COOLDOWN \<le> now - lastTime st type
        \<and> later - now < NUDGE_COOLDOWN"
  then have "nudges c = []" using scope_sees_none by blast
  with a have adm: "addNudge c now rid type msg st =
      st\<lparr> nudges_state :=
            [\<lparr> nudge_id = rid, nudge_type = type, nudge_message = msg, nudge_timestamp = now \<rparr>],
          lastNudgeTimeRef := (lastNudgeTimeRef st)(type \<mapsto> now) \<rparr>"
    by (intro addNudge_admitted) simp_all
  from a show "addNudge c' later rid' type msg' (addNudge c now rid type msg st) =
          addNudge c now rid type msg st"
    unfolding adm by (simp add: addNudge_def lastTime_def)
next
  assume a: "(c = liveScope \<or> c = render st) \<and> nudges_state st = []
        \<and> NUDGE_COOLDOWN \<le> now - lastTime st type
        \<and> NUDGE_COOLDOWN \<le> later - now
        \<and> (c' = liveScope \<or> c' = render (nudgeTimeout rid (addNudge c now rid type msg st)))"
  then have "nudges c = []" using scope_sees_none by blast
  with a have adm: "addNudge c now rid type msg st =
      st\<lparr> nudges_state :=
            [\<lparr> nudge_id = rid, nudge_type = type, nudge_message = msg, nudge_timestamp = now \<rparr>],
          lastNudgeTimeRef := (lastNudgeTimeRef st)(type \<mapsto> now) \<rparr>"
    by (intro addNudge_admitted) simp_all
  let ?st2 = "nudgeTimeout rid (addNudge c now rid type msg st)"
  show gone: "nudges_state ?st2 = []"
    by (simp add: adm nudgeTimeout_def)
  have last: "lastTime ?st2 type = now"
    by (simp add: adm nudgeTimeout_def lastTime_def)
  from a gone have "nudges c' = []" using scope_sees_none [of c' ?st2] by blast
  with a last have adm2: "addNudge c' later rid' type msg' ?st2 =
      ?st2\<lparr> nudges_state :=
            [\<lparr> nudge_id = rid', nudge_type = type, nudge_message = msg',
               nudge_timestamp = later \<rparr>],
          lastNudgeTimeRef := (lastNudgeTimeRef ?st2)(type \<mapsto> later) \<rparr>"
    by (intro addNudge_admitted) simp_all
  show "nudges_state (addNudge c' later rid' type msg' ?st2) =
            [\<lparr> nudge_id = rid', nudge_type = type, nudge_message = msg',
               nudge_timestamp = later \<rparr>]"
    by (simp add: adm2)
  show "lastTime (addNudge c' later rid' type msg' ?st2) type = later"
    by (simp add: adm2 lastTime_def)
qed
text \<open>
  An audio advisory on a fresh session, a second trigger 29999 ms later, and one 30000 ms
  later after the timer has removed the advisory.
\<close>

theorem nudge_cooldown_witness:
  "nudges_state (sessionStart 1700000000000) = []
   \<and> NUDGE_COOLDOWN \<le> 1700000000000 - lastTime (sessionStart 1700000000000) Audio
   \<and> nudges_state (addNudge liveScope 1700000000000 ''0.1'' Audio tooFast
                     (sessionStart 1700000000000)) =
       [\<lparr> nudge_id = ''0.1'', nudge_type = Audio, nudge_message = tooFast,
          nudge_timestamp = 1700000000000 \<rparr>]
   \<and> lastTime (addNudge liveScope 1700000000000 ''0.1'' Audio tooFast
                 (sessionStart 1700000000000)) Audio = 1700000000000
   \<and> 1700000029999 - 1700000000000 < NUDGE_COOLDOWN
   \<and> addNudge liveScope 1700000029999 ''0.2'' Audio uncertain
         (addNudge liveScope 1700000000000 ''0.1'' Audio tooFast (sessionStart 1700000000000)) =
       addNudge liveScope 1700000000000 ''0.1'' Audio tooFast (sessionStart 1700000000000)
   \<and> NUDGE_COOLDOWN \<le> 1700000030000 - 1700000000000
   \<and> nudges_state (nudgeTimeout ''0.1''
         (addNudge liveScope 1700000000000 ''0.1'' Audio tooFast (sessionStart 1700000000000))) = []
   \<and> nudges_state
         (addNudge liveScope 1700000030000 ''0.2'' Audio uncertain
            (nudgeTimeout ''0.1''
               (addNudge liveScope 1700000000000 ''0.1'' Audio tooFast
                  (sessionStart 1700000000000)))) =
       [\<lparr> nudge_id = ''0.2'', nudge_type = Audio, nudge_message = uncertain,
          nudge_timestamp = 1700000030000 \<rparr>]"
proof -
  let ?st0 = "sessionStart 1700000000000"
  have start: "nudges_state ?st0 = []"
    "NUDGE_COOLDOWN \<le> 1700000000000 - lastTime ?st0 Audio"
    by (simp_all add: sessionStart_def initialScreen_def lastTime_def NUDGE_COOLDOWN_def)
  have times: "1700000029999 - 1700000000000 < NUDGE_COOLDOWN"
    "NUDGE_COOLDOWN \<le> 1700000030000 - 1700000000000"
    by (simp_all add: NUDGE_COOLDOWN_def)
  note early = nudge_cooldown
      [of 1700000000000 ?st0 Audio liveScope "''0.1''" tooFast 1700000029999
          liveScope "''0.2''" uncertain]
  note late = nudge_cooldown
      [of 1700000000000 ?st0 Audio liveScope "''0.1''" tooFast 1700000030000
          liveScope "''0.2''" uncertain]
  from early start have first:
    "nudges_state (addNudge liveScope 1700000000000 ''0.1'' Audio tooFast ?st0) =
       [\<lparr> nudge_id = ''0.1'', nudge_type = Audio, nudge_message = tooFast,
          nudge_timestamp = 1700000000000 \<rparr>]"
    "lastTime (addNudge liveScope 1700000000000 ''0.1'' Audio tooFast ?st0) Audio = 1700000000000"
    by blast+
  from early start times(1) have second:
    "addNudge liveScope 1700000029999 ''0.2'' Audio uncertain
         (addNudge liveScope 1700000000000 ''0.1'' Audio tooFast ?st0) =
       addNudge liveScope 1700000000000 ''0.1'' Audio tooFast ?st0"
    by blast
  from late start times(2) have third:
    "nudges_state (nudgeTimeout ''0.1''
         (addNudge liveScope 1700000000000 ''0.1'' Audio tooFast ?st0)) = []"
    "nudges_state
         (addNudge liveScope 1700000030000 ''0.2'' Audio uncertain
            (nudgeTimeout ''0.1''
               (addNudge liveScope 1700000000000 ''0.1'' Audio tooFast ?st0))) =
       [\<lparr> nudge_id = ''0.2'', nudge_type = Audio, nudge_message = uncertain,
          nudge_timestamp = 1700000030000 \<rparr>]"
    by blast+
  show ?thesis
    using start times first second third by blast
qed

section \<open>Properties of the visual analyzer\<close>

text \<open>
  C8. A call of \<open>analyze\<close> with a timestamp that is not above the last accepted one, or
  that is not positive, returns null and leaves the service as it was: the detectors
  are not called (\<open>detections\<close> is unchanged), the frame counters are not incremented
  and \<open>lastTimestamp\<close> keeps its value.
\<close>

theorem analyze_rejects_stale_timestamp:
  "timestamp \<le> lastTimestamp vs \<or> timestamp \<le> 0 \<Longrightarrow> analyze video timestamp vs = (None, vs)"
  by (simp add: analyze_def split: option.splits bool.splits)

text \<open>A fresh positive timestamp on an initialized service is accepted and reaches the detector.\<close>

lemma analyze_accepts_fresh_timestamp:
  assumes "isInitialized vs" "faceLandmarker vs = Some face" "poseLandmarker vs = Some pose"
    and "lastTimestamp vs < timestamp" "0 < timestamp"
  shows "lastTimestamp (snd (analyze video timestamp vs)) = timestamp"
    and "detections vs @ [timestamp] =
           take (Suc (length (detections vs))) (detections (snd (analyze video timestamp vs)))"
  using assms by (auto simp add: analyze_def Let_def split: sum.splits prod.splits)

lemma analyze_sample_frame:
  "analyze () 100 readyVision =
     (Some \<lparr> eyeContactIssue = True, postureIssue = False, postureMessage = [] \<rparr>,
      readyVision\<lparr> lastTimestamp := 100, totalFrames := 1, goodPostureFrames := 1,
                   detections := [100, 100] \<rparr>)"
  by (simp add: analyze_def readyVision_def stillFace_def noPose_def eyeContactCheck_def
        findScore_def postureCheck_def Let_def)

text \<open>The timestamp 100 a second time, and the timestamp 0 on a fresh service.\<close>

theorem analyze_rejects_stale_timestamp_witness:
  "(100 \<le> lastTimestamp (snd (analyze () 100 readyVision)) \<or> (100::real) \<le> 0)
   \<and> analyze () 100 (snd (analyze () 100 readyVision)) =
       (None, snd (analyze () 100 readyVision))
   \<and> detections (snd (analyze () 100 readyVision)) = [100, 100]
   \<and> totalFrames (snd (analyze () 100 readyVision)) = 1
   \<and> ((0::real) \<le> lastTimestamp readyVision \<or> (0::real) \<le> 0)
   \<and> analyze () 0 readyVision = (None, readyVision)"
  using analyze_rejects_stale_timestamp [of 100 "snd (analyze () 100 readyVision)" "()"]
        analyze_rejects_stale_timestamp [of 0 readyVision "()"]
  by (simp add: analyze_sample_frame)

section \<open>Properties of the report\<close>

subsection \<open>When generateReport throws\<close>

lemma isReportData_fallbackReport: "isReportData fallbackReport"
  by (simp add: isReportData_def fallbackReport_def isNumber_def isStringArray_def
        isString_def dimensionNames_def)

lemma radarData_fallbackReport: "\<exists>rows. radarData fallbackReport = Inr rows"
  by (simp add: radarData_def member_def fallbackReport_def)

text \<open>
  A thrown error, and a text that \<open>JSON.parse\<close> rejects when it is handed over, put the
  fallback in place.
\<close>

lemma generate_fallback:
  "response = Inl e \<or> (response = Inr t \<and> parse (jsonText t) = None) \<Longrightarrow>
   generate parse response rs = rs\<lparr> report := Some fallbackReport, loading := False \<rparr>"
  by (auto simp add: generate_def generateReport_def)

lemma generate_unparseable_text:
  "t \<noteq> [] \<Longrightarrow> parse t = None \<Longrightarrow>
   generate parse (Inr (Some t)) rs = rs\<lparr> report := Some fallbackReport, loading := False \<rparr>"
  by (simp add: generate_def generateReport_def jsonText_def)

subsection \<open>An empty response\<close>

text \<open>
  C9. A response whose text is empty, which \<open>JSON.parse\<close> rejects, or absent is read as
  the text \<open>{}\<close>: \<open>generateReport\<close> returns the object without fields, nothing is
  thrown, and the screen stores that object as the report instead of the fallback. The
  stored report has none of the fields of \<open>ReportData\<close>, and building the chart data
  from it throws.
\<close>

theorem empty_response_is_not_replaced:
  "parse ''{}'' = Some (JObject []) \<Longrightarrow>
   generate parse (Inr (Some [])) rs = rs\<lparr> report := Some (JObject []), loading := False \<rparr>
   \<and> generate parse (Inr None) rs = rs\<lparr> report := Some (JObject []), loading := False \<rparr>
   \<and> \<not> isReportData (JObject [])
   \<and> radarData (JObject []) = Inl TypeError"
  by (simp add: generate_def generateReport_def jsonText_def isReportData_def isNumber_def
        radarData_def member_def)

theorem empty_response_is_not_replaced_witness:
  "parseEmptyObject ''{}'' = Some (JObject []) \<and> parseEmptyObject [] = None
   \<and> generate parseEmptyObject (Inr (Some [])) \<lparr> report = None, loading = True \<rparr>
       = \<lparr> report = Some (JObject []), loading = False \<rparr>
   \<and> \<not> isReportData (JObject [])
   \<and> radarData (JObject []) = Inl TypeError"
  using empty_response_is_not_replaced [of parseEmptyObject "\<lparr> report = None, loading = True \<rparr>"]
  by (simp add: parseEmptyObject_def)

end
